theory Spec2Isabelle
  imports Complex_Main "HOL-Library.Multiset"
begin

section \<open>Library types the program relies on\<close>

subsection \<open>float64\<close>

text \<open>
  A Go \<open>float64\<close> is a finite number, an infinity or a NaN. Every IEEE operation on
  finite operands returns the rounding of the exact real result; the rounding function
  (which returns an infinity on overflow) is a parameter \<open>rnd\<close> of every arithmetic
  operation below, so nothing proved here depends on how binary64 rounds. The sign of a
  zero is not modelled: the program never divides by a zero (both divisions in the source
  are guarded), which is the only place where the sign could be observed.
\<close>

datatype float64 = Fin real | PInf | NInf | NaN

type_synonym rounding = "real \<Rightarrow> float64"

fun fadd :: "rounding \<Rightarrow> float64 \<Rightarrow> float64 \<Rightarrow> float64" where
  "fadd rnd (Fin x) (Fin y) = rnd (x + y)"
| "fadd rnd NaN _ = NaN"
| "fadd rnd _ NaN = NaN"
| "fadd rnd PInf NInf = NaN"
| "fadd rnd NInf PInf = NaN"
| "fadd rnd PInf _ = PInf"
| "fadd rnd _ PInf = PInf"
| "fadd rnd NInf _ = NInf"
| "fadd rnd _ NInf = NInf"

fun fsub :: "rounding \<Rightarrow> float64 \<Rightarrow> float64 \<Rightarrow> float64" where
  "fsub rnd (Fin x) (Fin y) = rnd (x - y)"
| "fsub rnd NaN _ = NaN"
| "fsub rnd _ NaN = NaN"
| "fsub rnd PInf PInf = NaN"
| "fsub rnd NInf NInf = NaN"
| "fsub rnd PInf _ = PInf"
| "fsub rnd NInf _ = NInf"
| "fsub rnd _ PInf = NInf"
| "fsub rnd _ NInf = PInf"

definition fsign :: "bool \<Rightarrow> float64" where
  "fsign pos = (if pos then PInf else NInf)"

fun fmul :: "rounding \<Rightarrow> float64 \<Rightarrow> float64 \<Rightarrow> float64" where
  "fmul rnd (Fin x) (Fin y) = rnd (x * y)"
| "fmul rnd NaN _ = NaN"
| "fmul rnd _ NaN = NaN"
| "fmul rnd PInf (Fin y) = (if y = 0 then NaN else fsign (0 < y))"
| "fmul rnd NInf (Fin y) = (if y = 0 then NaN else fsign (y < 0))"
| "fmul rnd (Fin x) PInf = (if x = 0 then NaN else fsign (0 < x))"
| "fmul rnd (Fin x) NInf = (if x = 0 then NaN else fsign (x < 0))"
| "fmul rnd PInf PInf = PInf"
| "fmul rnd NInf NInf = PInf"
| "fmul rnd PInf NInf = NInf"
| "fmul rnd NInf PInf = NInf"

fun fdiv :: "rounding \<Rightarrow> float64 \<Rightarrow> float64 \<Rightarrow> float64" where
  "fdiv rnd (Fin x) (Fin y) =
     (if y = 0 then (if x = 0 then NaN else fsign (0 < x)) else rnd (x / y))"
| "fdiv rnd NaN _ = NaN"
| "fdiv rnd _ NaN = NaN"
| "fdiv rnd PInf (Fin y) = fsign (0 \<le> y)"
| "fdiv rnd NInf (Fin y) = fsign (y < 0)"
| "fdiv rnd (Fin x) PInf = Fin 0"
| "fdiv rnd (Fin x) NInf = Fin 0"
| "fdiv rnd PInf PInf = NaN"
| "fdiv rnd PInf NInf = NaN"
| "fdiv rnd NInf PInf = NaN"
| "fdiv rnd NInf NInf = NaN"

text \<open>\<open>x == 0\<close>, \<open>x > 0\<close>, \<open>math.IsInf(x, 0)\<close> and \<open>math.IsNaN(x)\<close>.\<close>

definition isZero64 :: "float64 \<Rightarrow> bool" where
  "isZero64 x = (x = Fin 0)"

fun gtZero64 :: "float64 \<Rightarrow> bool" where
  "gtZero64 (Fin x) = (0 < x)"
| "gtZero64 PInf = True"
| "gtZero64 _ = False"

definition IsInf :: "float64 \<Rightarrow> bool" where
  "IsInf x = (x = PInf \<or> x = NInf)"

definition IsNaN :: "float64 \<Rightarrow> bool" where
  "IsNaN x = (x = NaN)"

definition finite64 :: "float64 \<Rightarrow> bool" where
  "finite64 x = (\<not> IsInf x \<and> \<not> IsNaN x)"

text \<open>The rounding that is exact; binary64 agrees with it on every integer below \<open>2^53\<close>.\<close>

definition exact :: rounding where
  "exact x = Fin x"

subsection \<open>Strings\<close>

text \<open>
  A Go string is a byte sequence, here a \<open>char list\<close>; \<open>byte c\<close> is the value of the
  byte.
\<close>

definition byte :: "char \<Rightarrow> nat" where
  "byte c = of_char c"

text \<open>\<open>strings.HasPrefix\<close>, \<open>strings.TrimPrefix\<close>, \<open>strings.Contains\<close>.\<close>

definition HasPrefix :: "string \<Rightarrow> string \<Rightarrow> bool" where
  "HasPrefix s p = (take (length p) s = p)"

definition TrimPrefix :: "string \<Rightarrow> string \<Rightarrow> string" where
  "TrimPrefix s p = (if HasPrefix s p then drop (length p) s else s)"

fun Contains :: "string \<Rightarrow> string \<Rightarrow> bool" where
  "Contains [] sub = (sub = [])"
| "Contains (c # cs) sub = (HasPrefix (c # cs) sub \<or> Contains cs sub)"

text \<open>\<open>strings.TrimLeft(s, " ")\<close>.\<close>

definition TrimLeftSpaces :: "string \<Rightarrow> string" where
  "TrimLeftSpaces s = dropWhile (\<lambda>c. c = CHR '' '') s"

text \<open>
  \<open>strings.ToLower\<close> on ASCII letters; bytes of other runes are left as they are (Go
  maps a few non-ASCII runes to ASCII letters, which no property below depends on).
\<close>

definition lowerChar :: "char \<Rightarrow> char" where
  "lowerChar c = (if 65 \<le> byte c \<and> byte c \<le> 90 then char_of (byte c + 32) else c)"

definition ToLower :: "string \<Rightarrow> string" where
  "ToLower s = map lowerChar s"

text \<open>
  \<open>strings.TrimSpace\<close> removes every leading and trailing rune that
  \<open>unicode.IsSpace\<close> accepts: the ASCII bytes 9 to 13 and 32, and the UTF-8 encodings of
  U+0085, U+00A0, U+1680, U+2000 to U+200A, U+2028, U+2029, U+202F, U+205F and U+3000.
  \<open>leadSpace\<close> is the number of bytes of such a rune at the front of a byte list (0 when
  there is none), \<open>trailSpace\<close> the same at its end.
\<close>

definition asciiSpace :: "nat \<Rightarrow> bool" where
  "asciiSpace b = ((9 \<le> b \<and> b \<le> 13) \<or> b = 32)"

fun leadSpace :: "nat list \<Rightarrow> nat" where
  "leadSpace [] = 0"
| "leadSpace [b] = (if asciiSpace b then 1 else 0)"
| "leadSpace [b, b2] =
     (if asciiSpace b then 1
      else if b = 194 \<and> (b2 = 133 \<or> b2 = 160) then 2 else 0)"
| "leadSpace (b # b2 # b3 # bs) =
     (if asciiSpace b then 1
      else if b = 194 \<and> (b2 = 133 \<or> b2 = 160) then 2
      else if b = 225 \<and> b2 = 154 \<and> b3 = 128 then 3
      else if b = 226 \<and> b2 = 128 \<and>
              ((128 \<le> b3 \<and> b3 \<le> 138) \<or> b3 = 168 \<or> b3 = 169 \<or> b3 = 175) then 3
      else if b = 226 \<and> b2 = 129 \<and> b3 = 159 then 3
      else if b = 227 \<and> b2 = 128 \<and> b3 = 128 then 3
      else 0)"

fun trailSpaceRev :: "nat list \<Rightarrow> nat" where
  "trailSpaceRev [] = 0"
| "trailSpaceRev [b] = (if asciiSpace b then 1 else 0)"
| "trailSpaceRev [b2, b] =
     (if asciiSpace b2 then 1
      else if b = 194 \<and> (b2 = 133 \<or> b2 = 160) then 2 else 0)"
| "trailSpaceRev (b3 # b2 # b # bs) =
     (if asciiSpace b3 then 1
      else if b2 = 194 \<and> (b3 = 133 \<or> b3 = 160) then 2
      else if b = 225 \<and> b2 = 154 \<and> b3 = 128 then 3
      else if b = 226 \<and> b2 = 128 \<and>
              ((128 \<le> b3 \<and> b3 \<le> 138) \<or> b3 = 168 \<or> b3 = 169 \<or> b3 = 175) then 3
      else if b = 226 \<and> b2 = 129 \<and> b3 = 159 then 3
      else if b = 227 \<and> b2 = 128 \<and> b3 = 128 then 3
      else 0)"

function trimLeadSpace :: "string \<Rightarrow> string" where
  "trimLeadSpace s =
     (if leadSpace (map byte s) = 0 then s
      else trimLeadSpace (drop (leadSpace (map byte s)) s))"
  by pat_completeness auto
termination
  by (relation "measure length") (auto intro: Nat.diff_less simp: neq_Nil_conv)

function trimTrailSpaceRev :: "string \<Rightarrow> string" where
  "trimTrailSpaceRev r =
     (if trailSpaceRev (map byte r) = 0 then r
      else trimTrailSpaceRev (drop (trailSpaceRev (map byte r)) r))"
  by pat_completeness auto
termination
  by (relation "measure length") (auto intro: Nat.diff_less simp: neq_Nil_conv)

definition TrimSpace :: "string \<Rightarrow> string" where
  "TrimSpace s = rev (trimTrailSpaceRev (rev (trimLeadSpace s)))"


section \<open>Data model\<close>

text \<open>
  A \<open>time.Time\<close> is modelled by the instant it denotes: the number of nanoseconds since
  the zero time (January 1 of year 1, 00:00:00 UTC), so that \<open>t.IsZero()\<close> is \<open>t = 0\<close>,
  \<open>a.Before(b)\<close> is \<open>a < b\<close> and \<open>a.After(b)\<close> is \<open>b < a\<close>. A \<open>time.Duration\<close> is a
  number of nanoseconds. \<open>LogType\<close> is a string type in the source.
\<close>

type_synonym time = int
type_synonym duration = int
type_synonym LogType = string

definition LogTypeDump :: LogType where "LogTypeDump = ''DUMP''"
definition LogTypeStatistics :: LogType where "LogTypeStatistics = ''STATISTICS''"
definition LogTypeEvents :: LogType where "LogTypeEvents = ''EVENTS''"
definition LogTypeSlowLog :: LogType where "LogTypeSlowLog = ''SLOWLOG''"
definition LogTypeOther :: LogType where "LogTypeOther = ''OTHER''"

record Metric =
  SourceType :: LogType
  StartTime :: time
  Name :: string
  Value :: float64

datatype error =
    EmptyFormula
  | UnexpectedCharacter char nat
  | MismatchedParentheses
  | InvalidToken
  | StackUnderflow
  | MissingVariable string
  | UnknownOperator string
  | BadToken
  | EvaluationStackSize nat
  | EvaluateAt time error

section \<open>Expression engine (expr.go)\<close>

datatype tokKind = tokInvalid | tokNumber | tokName | tokOp | tokLParen | tokRParen

text \<open>The field \<open>text\<close> of the source is \<open>ttext\<close> here.\<close>

record token =
  kind :: tokKind
  num :: float64
  ttext :: string

definition isNameStart :: "char \<Rightarrow> bool" where
  "isNameStart b =
     ((byte CHR ''A'' \<le> byte b \<and> byte b \<le> byte CHR ''Z'') \<or>
      (byte CHR ''a'' \<le> byte b \<and> byte b \<le> byte CHR ''z'') \<or> b = CHR ''_'')"

definition isDigit :: "char \<Rightarrow> bool" where
  "isDigit b = (byte CHR ''0'' \<le> byte b \<and> byte b \<le> byte CHR ''9'')"

definition isNameChar :: "char \<Rightarrow> bool" where
  "isNameChar b = (isNameStart b \<or> isDigit b)"

text \<open>
  \<open>fmt.Sscanf(s[i:j], "%f", &num)\<close> on a text of digits with at most one dot: the
  number read is the rounding of the decimal value; when the text has no digit, or the
  value rounds to an infinity, the scan fails, its error is dropped and \<open>num\<close> keeps
  its initial 0.
\<close>

definition digitsValue :: "string \<Rightarrow> nat" where
  "digitsValue ds = foldl (\<lambda>a c. 10 * a + (byte c - byte CHR ''0'')) 0 ds"

definition decimalValue :: "string \<Rightarrow> real" where
  "decimalValue txt =
     (let ip = takeWhile isDigit txt; fp = drop 1 (dropWhile isDigit txt)
      in real (digitsValue ip) + real (digitsValue fp) / 10 ^ length fp)"

definition scanFloat :: "rounding \<Rightarrow> string \<Rightarrow> float64" where
  "scanFloat rnd txt =
     (if \<not> list_ex isDigit txt then Fin 0
      else case rnd (decimalValue txt) of Fin y \<Rightarrow> Fin y | _ \<Rightarrow> Fin 0)"

text \<open>
  The inner loop of \<open>tokenize\<close> that extends a numeric literal: \<open>numberLen dot cs\<close> is
  the number of bytes of \<open>cs\<close> it consumes (\<open>j - (i + 1)\<close>), \<open>dot\<close> telling whether a dot
  has been read.
\<close>

fun numberLen :: "bool \<Rightarrow> string \<Rightarrow> nat" where
  "numberLen dot [] = 0"
| "numberLen dot (c # cs) =
     (if isDigit c then Suc (numberLen dot cs)
      else if c = CHR ''.'' \<and> \<not> dot then Suc (numberLen True cs)
      else 0)"

text \<open>
  \<open>tokenizeFrom rnd i cs toks\<close> is the main loop of \<open>tokenize\<close> at index \<open>i\<close>, with
  \<open>cs = s[i:]\<close> still to read and \<open>toks\<close> collected so far.
\<close>

function tokenizeFrom :: "rounding \<Rightarrow> nat \<Rightarrow> string \<Rightarrow> token list \<Rightarrow> error + token list" where
  "tokenizeFrom rnd i [] toks = Inr toks"
| "tokenizeFrom rnd i (ch # cs) toks =
     (if ch = CHR '' '' \<or> byte ch = 9 \<or> byte ch = 10 \<or> byte ch = 13
        then tokenizeFrom rnd (i + 1) cs toks
      else if ch = CHR ''+'' \<or> ch = CHR ''-'' \<or> ch = CHR ''*'' \<or> ch = CHR ''/''
        then tokenizeFrom rnd (i + 1) cs (toks @ [\<lparr>kind = tokOp, num = Fin 0, ttext = [ch]\<rparr>])
      else if ch = CHR ''(''
        then tokenizeFrom rnd (i + 1) cs (toks @ [\<lparr>kind = tokLParen, num = Fin 0, ttext = ''(''\<rparr>])
      else if ch = CHR '')''
        then tokenizeFrom rnd (i + 1) cs (toks @ [\<lparr>kind = tokRParen, num = Fin 0, ttext = '')''\<rparr>])
      else if isNameStart ch
        then (let n = length (takeWhile isNameChar cs)
              in tokenizeFrom rnd (i + 1 + n) (drop n cs)
                   (toks @ [\<lparr>kind = tokName, num = Fin 0, ttext = ch # take n cs\<rparr>]))
      else if isDigit ch \<or> ch = CHR ''.''
        then (let n = numberLen (ch = CHR ''.'') cs; txt = ch # take n cs
              in tokenizeFrom rnd (i + 1 + n) (drop n cs)
                   (toks @ [\<lparr>kind = tokNumber, num = scanFloat rnd txt, ttext = txt\<rparr>]))
      else Inl (UnexpectedCharacter ch i))"
  by pat_completeness auto
termination
  by (relation "measure (\<lambda>(rnd, i, cs, toks). length cs)") auto

definition tokenize :: "rounding \<Rightarrow> string \<Rightarrow> error + token list" where
  "tokenize rnd expr = tokenizeFrom rnd 0 expr []"

definition precedence :: "string \<Rightarrow> int" where
  "precedence op =
     (if op = ''+'' \<or> op = ''-'' then 1 else if op = ''*'' \<or> op = ''/'' then 2 else -1)"

text \<open>
  The operator stack is kept with its top at the head of the list. \<open>popOps\<close> is the loop
  of the \<open>tokOp\<close> case, \<open>popToLParen\<close> the loop of the \<open>tokRParen\<close> case (it returns
  whether a left parenthesis was found), \<open>drainOps\<close> the final loop over the stack.
\<close>

fun popOps :: "token \<Rightarrow> token list \<Rightarrow> token list \<Rightarrow> token list \<times> token list" where
  "popOps tk [] output = ([], output)"
| "popOps tk (tp # opstack) output =
     (if kind tp = tokOp \<and> precedence (ttext tp) \<ge> precedence (ttext tk)
      then popOps tk opstack (output @ [tp])
      else (tp # opstack, output))"

fun popToLParen :: "token list \<Rightarrow> token list \<Rightarrow> bool \<times> token list \<times> token list" where
  "popToLParen [] output = (False, [], output)"
| "popToLParen (tp # opstack) output =
     (if kind tp = tokLParen then (True, opstack, output)
      else popToLParen opstack (output @ [tp]))"

fun drainOps :: "token list \<Rightarrow> token list \<Rightarrow> error + token list" where
  "drainOps [] output = Inr output"
| "drainOps (tp # opstack) output =
     (if kind tp = tokLParen \<or> kind tp = tokRParen then Inl MismatchedParentheses
      else drainOps opstack (output @ [tp]))"

text \<open>
  The set \<open>vars\<close> of the source is a list without repetitions, in the order of first
  occurrence; only its membership and its emptiness are read.
\<close>

fun shunt :: "token list \<Rightarrow> token list \<Rightarrow> token list \<Rightarrow> string list \<Rightarrow>
    error + token list \<times> string list" where
  "shunt [] output opstack vars =
     (case drainOps opstack output of Inl e \<Rightarrow> Inl e | Inr out \<Rightarrow> Inr (out, vars))"
| "shunt (tk # toks) output opstack vars =
     (case kind tk of
        tokNumber \<Rightarrow> shunt toks (output @ [tk]) opstack vars
      | tokName \<Rightarrow>
          shunt toks (output @ [tk]) opstack
            (if ttext tk \<in> set vars then vars else vars @ [ttext tk])
      | tokOp \<Rightarrow>
          (case popOps tk opstack output of
             (opstack', output') \<Rightarrow> shunt toks output' (tk # opstack') vars)
      | tokLParen \<Rightarrow> shunt toks output (tk # opstack) vars
      | tokRParen \<Rightarrow>
          (case popToLParen opstack output of
             (found, opstack', output') \<Rightarrow>
               if \<not> found then Inl MismatchedParentheses
               else shunt toks output' opstack' vars)
      | tokInvalid \<Rightarrow> Inl InvalidToken)"

definition parseExpressionToRPN :: "rounding \<Rightarrow> string \<Rightarrow> error + token list \<times> string list" where
  "parseExpressionToRPN rnd expr =
     (case tokenize rnd expr of
        Inl e \<Rightarrow> Inl e
      | Inr toks \<Rightarrow> shunt toks [] [] [])"

text \<open>
  \<open>evalRPN\<close>: the value stack has its tp at the head; \<open>evalLoop\<close> is the loop over the
  tokens, \<open>evalRPN\<close> adds the final checks.
\<close>

fun evalLoop :: "rounding \<Rightarrow> token list \<Rightarrow> (string \<rightharpoonup> float64) \<Rightarrow> float64 list \<Rightarrow>
    error + float64 list" where
  "evalLoop rnd [] env stack = Inr stack"
| "evalLoop rnd (tk # rpn) env stack =
     (case kind tk of
        tokNumber \<Rightarrow> evalLoop rnd rpn env (num tk # stack)
      | tokName \<Rightarrow>
          (case env (ttext tk) of
             None \<Rightarrow> Inl (MissingVariable (ttext tk))
           | Some v \<Rightarrow> evalLoop rnd rpn env (v # stack))
      | tokOp \<Rightarrow>
          (case stack of
             [] \<Rightarrow> Inl StackUnderflow
           | [b] \<Rightarrow> Inl StackUnderflow
           | b # a # rest \<Rightarrow>
               if ttext tk = ''+'' then evalLoop rnd rpn env (fadd rnd a b # rest)
               else if ttext tk = ''-'' then evalLoop rnd rpn env (fsub rnd a b # rest)
               else if ttext tk = ''*'' then evalLoop rnd rpn env (fmul rnd a b # rest)
               else if ttext tk = ''/'' then
                 (if isZero64 b then evalLoop rnd rpn env (Fin 0 # rest)
                  else evalLoop rnd rpn env (fdiv rnd a b # rest))
               else Inl (UnknownOperator (ttext tk)))
      | _ \<Rightarrow> Inl BadToken)"

definition evalRPN :: "rounding \<Rightarrow> token list \<Rightarrow> (string \<rightharpoonup> float64) \<Rightarrow> error + float64" where
  "evalRPN rnd rpn env =
     (case evalLoop rnd rpn env [] of
        Inl e \<Rightarrow> Inl e
      | Inr stack \<Rightarrow>
          if length stack \<noteq> 1 then Inl (EvaluationStackSize (length stack))
          else let res = hd stack
               in Inr (if IsInf res \<or> IsNaN res then Fin 0 else res))"


text \<open>
  \<open>Compute\<close>. The map \<open>timeToNameSum\<close> is a map from times to maps from names to sums;
  the key set \<open>seenTimes\<close> is a list without repetitions (Go ranges over it in an
  unspecified order, and the times selected from it are sorted before they are used).
  \<open>foldMetrics\<close> is the loop that fills both, \<open>evalTimes\<close> the loop that evaluates the
  formula at each selected time.
\<close>

definition envAt :: "(time \<rightharpoonup> (string \<rightharpoonup> float64)) \<Rightarrow> time \<Rightarrow> (string \<rightharpoonup> float64)" where
  "envAt timeToNameSum tt = (case timeToNameSum tt of None \<Rightarrow> Map.empty | Some ns \<Rightarrow> ns)"

fun foldMetrics :: "rounding \<Rightarrow> Metric list \<Rightarrow> (time \<rightharpoonup> (string \<rightharpoonup> float64)) \<Rightarrow> time list \<Rightarrow>
    (time \<rightharpoonup> (string \<rightharpoonup> float64)) \<times> time list" where
  "foldMetrics rnd [] timeToNameSum seenTimes = (timeToNameSum, seenTimes)"
| "foldMetrics rnd (m # ms) timeToNameSum seenTimes =
     (if StartTime m = 0 then foldMetrics rnd ms timeToNameSum seenTimes
      else let tt = StartTime m;
               ns = envAt timeToNameSum tt;
               old = (case ns (Name m) of None \<Rightarrow> Fin 0 | Some v \<Rightarrow> v)
           in foldMetrics rnd ms
                (timeToNameSum(tt \<mapsto> ns(Name m \<mapsto> fadd rnd old (Value m))))
                (if tt \<in> set seenTimes then seenTimes else seenTimes @ [tt]))"

fun evalTimes :: "rounding \<Rightarrow> token list \<Rightarrow> (time \<rightharpoonup> (string \<rightharpoonup> float64)) \<Rightarrow> string \<Rightarrow>
    time list \<Rightarrow> Metric list \<Rightarrow> error + Metric list" where
  "evalTimes rnd rpn timeToNameSum outName [] out = Inr out"
| "evalTimes rnd rpn timeToNameSum outName (tt # tms) out =
     (case evalRPN rnd rpn (envAt timeToNameSum tt) of
        Inl e \<Rightarrow> Inl (EvaluateAt tt e)
      | Inr val \<Rightarrow>
          evalTimes rnd rpn timeToNameSum outName tms
            (out @ [\<lparr>SourceType = ''EXPR'', StartTime = tt, Name = outName, Value = val\<rparr>]))"

definition hasAll :: "(time \<rightharpoonup> (string \<rightharpoonup> float64)) \<Rightarrow> string list \<Rightarrow> time \<Rightarrow> bool" where
  "hasAll timeToNameSum vars tt = list_all (\<lambda>v. envAt timeToNameSum tt v \<noteq> None) vars"

definition Compute :: "rounding \<Rightarrow> Metric list \<Rightarrow> string \<Rightarrow> string \<Rightarrow> error + Metric list" where
  "Compute rnd metrics formula outName =
     (if TrimSpace formula = [] then Inl EmptyFormula
      else case parseExpressionToRPN rnd formula of
        Inl e \<Rightarrow> Inl e
      | Inr (rpn, vars) \<Rightarrow>
          (case foldMetrics rnd metrics Map.empty [] of
             (timeToNameSum, seenTimes) \<Rightarrow>
               let tms = (if vars \<noteq> [] then filter (hasAll timeToNameSum vars) seenTimes
                            else seenTimes)
               in if tms = [] then Inr []
                  else evalTimes rnd rpn timeToNameSum
                         (if outName = [] then TrimSpace formula else outName)
                         (sort tms) []))"

text \<open>The encodings of the runes that \<open>unicode.IsSpace\<close> accepts.\<close>

definition spaceRunes :: "string list" where
  "spaceRunes =
     [[CHR 0x09], [CHR 0x0A], [CHR 0x0B],
      [CHR 0x0C], [CHR 0x0D], [CHR 0x20],
      [CHR 0xC2, CHR 0x85], [CHR 0xC2, CHR 0xA0], [CHR 0xE1, CHR 0x9A, CHR 0x80],
      [CHR 0xE2, CHR 0x80, CHR 0x80], [CHR 0xE2, CHR 0x80, CHR 0x81], [CHR 0xE2, CHR 0x80, CHR 0x82],
      [CHR 0xE2, CHR 0x80, CHR 0x83], [CHR 0xE2, CHR 0x80, CHR 0x84], [CHR 0xE2, CHR 0x80, CHR 0x85],
      [CHR 0xE2, CHR 0x80, CHR 0x86], [CHR 0xE2, CHR 0x80, CHR 0x87], [CHR 0xE2, CHR 0x80, CHR 0x88],
      [CHR 0xE2, CHR 0x80, CHR 0x89], [CHR 0xE2, CHR 0x80, CHR 0x8A], [CHR 0xE2, CHR 0x80, CHR 0xA8],
      [CHR 0xE2, CHR 0x80, CHR 0xA9], [CHR 0xE2, CHR 0x80, CHR 0xAF], [CHR 0xE2, CHR 0x81, CHR 0x9F],
      [CHR 0xE3, CHR 0x80, CHR 0x80]]"

section \<open>Properties of the expression engine\<close>

lemmas tok_simps = tokenize_def byte_def isNameStart_def isNameChar_def isDigit_def
  parseExpressionToRPN_def precedence_def scanFloat_def decimalValue_def digitsValue_def

lemma parse_A_plus_B: "parseExpressionToRPN rnd ''A + B'' = Inr ([\<lparr>kind = tokName, num = Fin 0, ttext = ''A''\<rparr>,
   \<lparr>kind = tokName, num = Fin 0, ttext = ''B''\<rparr>, \<lparr>kind = tokOp, num = Fin 0, ttext = ''+''\<rparr>], [''A'', ''B''])"
  by (simp add: tok_simps)

lemma parse_X_div_Y: "parseExpressionToRPN rnd ''X/Y'' = Inr ([\<lparr>kind = tokName, num = Fin 0, ttext = ''X''\<rparr>,
   \<lparr>kind = tokName, num = Fin 0, ttext = ''Y''\<rparr>, \<lparr>kind = tokOp, num = Fin 0, ttext = ''/''\<rparr>], [''X'', ''Y''])"
  by (simp add: tok_simps)

lemma TrimSpace_nonempty: "leadSpace (map byte s) = 0 \<Longrightarrow> trailSpaceRev (map byte (rev s)) = 0 \<Longrightarrow> TrimSpace s = s"
  unfolding TrimSpace_def
  by (subst trimLeadSpace.simps, simp del: trimLeadSpace.simps trimTrailSpaceRev.simps,
      subst trimTrailSpaceRev.simps, simp del: trimLeadSpace.simps trimTrailSpaceRev.simps add: rev_map)

lemma ts1: "TrimSpace ''A + B'' = ''A + B''"
  by (rule TrimSpace_nonempty) (simp_all add: byte_def asciiSpace_def)

lemma foldMetrics_seen:
  "foldMetrics rnd ms tbl seen = (tbl', seen') \<Longrightarrow>
   set seen' = set seen \<union> {StartTime m | m. m \<in> set ms \<and> StartTime m \<noteq> 0}
   \<and> (distinct seen \<longrightarrow> distinct seen')"
proof (induction ms arbitrary: tbl seen)
  case Nil then show ?case by simp
next
  case (Cons m ms)
  show ?case
  proof (cases "StartTime m = 0")
    case True
    with Cons.prems have "foldMetrics rnd ms tbl seen = (tbl', seen')" by simp
    from Cons.IH [OF this] True show ?thesis by auto
  next
    case False
    with Cons.prems obtain tbl1 where
      "foldMetrics rnd ms tbl1 (if StartTime m \<in> set seen then seen else seen @ [StartTime m]) = (tbl', seen')"
      by (simp add: Let_def)
    from Cons.IH [OF this] False show ?thesis by (auto split: if_splits)
  qed
qed

lemma foldMetrics_dom:
  "foldMetrics rnd ms tbl seen = (tbl', seen') \<Longrightarrow>
   dom (envAt tbl' tt) = dom (envAt tbl tt) \<union> {Name m | m. m \<in> set ms \<and> StartTime m = tt \<and> tt \<noteq> 0}"
proof (induction ms arbitrary: tbl seen)
  case Nil then show ?case by simp
next
  case (Cons m ms)
  show ?case
  proof (cases "StartTime m = 0")
    case True
    with Cons.prems have "foldMetrics rnd ms tbl seen = (tbl', seen')" by simp
    from Cons.IH [OF this] True show ?thesis by auto
  next
    case False
    define ns where "ns = envAt tbl (StartTime m)"
    define tbl1 where "tbl1 = tbl(StartTime m \<mapsto> ns(Name m \<mapsto>
        fadd rnd (case ns (Name m) of None \<Rightarrow> Fin 0 | Some v \<Rightarrow> v) (Value m)))"
    from False Cons.prems have
      "foldMetrics rnd ms tbl1 (if StartTime m \<in> set seen then seen else seen @ [StartTime m]) = (tbl', seen')"
      by (simp add: Let_def tbl1_def ns_def)
    from Cons.IH [OF this]
    have ih: "dom (envAt tbl' tt) = dom (envAt tbl1 tt) \<union> {Name m | m. m \<in> set ms \<and> StartTime m = tt \<and> tt \<noteq> 0}" .
    have "dom (envAt tbl1 tt) = dom (envAt tbl tt) \<union> (if StartTime m = tt then {Name m} else {})"
      by (auto simp: tbl1_def ns_def envAt_def split: option.splits if_splits)
    with ih False show ?thesis by auto
  qed
qed

lemma evalTimes_times:
  "evalTimes rnd rpn tbl nm tms out0 = Inr out \<Longrightarrow> map StartTime out = map StartTime out0 @ tms"
  by (induction tms arbitrary: out0) (auto split: sum.splits)

lemma evalTimes_fields:
  "evalTimes rnd rpn tbl nm tms out0 = Inr out \<Longrightarrow> m \<in> set out \<Longrightarrow> m \<notin> set out0 \<Longrightarrow>
   SourceType m = ''EXPR'' \<and> Name m = nm \<and> evalRPN rnd rpn (envAt tbl (StartTime m)) = Inr (Value m)"
proof (induction tms arbitrary: out0)
  case Nil then show ?case by simp
next
  case (Cons tt tms)
  from Cons.prems(1) obtain v where v: "evalRPN rnd rpn (envAt tbl tt) = Inr v"
    and r: "evalTimes rnd rpn tbl nm tms
        (out0 @ [\<lparr>SourceType = ''EXPR'', StartTime = tt, Name = nm, Value = v\<rparr>]) = Inr out"
    by (auto split: sum.splits)
  show ?case
  proof (cases "m = \<lparr>SourceType = ''EXPR'', StartTime = tt, Name = nm, Value = v\<rparr>")
    case True with v show ?thesis by simp
  next
    case False
    with Cons.prems(3) have "m \<notin> set (out0 @ [\<lparr>SourceType = ''EXPR'', StartTime = tt, Name = nm, Value = v\<rparr>])"
      by simp
    from Cons.IH [OF r Cons.prems(2) this] show ?thesis .
  qed
qed

lemma evalRPN_finite: "evalRPN rnd rpn env = Inr v \<Longrightarrow> finite64 v"
  by (auto simp: evalRPN_def finite64_def Let_def IsInf_def IsNaN_def split: sum.splits if_splits)

lemma shunt_vars:
  "shunt toks outp ops vs = Inr (rpn, vars') \<Longrightarrow>
   set vars' = set vs \<union> {ttext tk | tk. tk \<in> set toks \<and> kind tk = tokName}"
proof (induction toks arbitrary: outp ops vs)
  case Nil then show ?case by (auto split: sum.splits)
next
  case (Cons tk toks)
  show ?case
  proof (cases "kind tk")
    case tokInvalid with Cons.prems show ?thesis by simp
  next
    case tokNumber
    with Cons.prems Cons.IH [of "outp @ [tk]" ops vs] show ?thesis by auto
  next
    case tokName
    with Cons.prems Cons.IH [of "outp @ [tk]" ops "if ttext tk \<in> set vs then vs else vs @ [ttext tk]"]
    show ?thesis by (auto split: if_splits)
  next
    case tokOp
    with Cons.prems obtain o1 o2 where "shunt toks o2 (tk # o1) vs = Inr (rpn, vars')"
      by (auto split: prod.splits)
    from Cons.IH [OF this] tokOp show ?thesis by auto
  next
    case tokLParen
    with Cons.prems Cons.IH [of outp "tk # ops" vs] show ?thesis by auto
  next
    case tokRParen
    with Cons.prems obtain o1 o2 where "shunt toks o2 o1 vs = Inr (rpn, vars')"
      by (auto split: prod.splits if_splits)
    from Cons.IH [OF this] tokRParen show ?thesis by auto
  qed
qed

lemma evalTimes_ok:
  "(\<forall>tt\<in>set tms. \<exists>v. evalRPN rnd rpn (envAt tbl tt) = Inr v) \<Longrightarrow>
   \<exists>out. evalTimes rnd rpn tbl nm tms out0 = Inr out"
  by (induction tms arbitrary: out0) (auto split: sum.splits)

lemma Compute_times:
  assumes c: "Compute rnd metrics formula outName = Inr out"
    and p: "parseExpressionToRPN rnd formula = Inr (rpn, vars)"
    and v: "vars \<noteq> []"
  shows "map StartTime out = sorted_list_of_set
           {t. t \<noteq> 0 \<and> (\<forall>v\<in>set vars. \<exists>m\<in>set metrics. StartTime m = t \<and> Name m = v)}"
proof -
  obtain tbl seen where f: "foldMetrics rnd metrics Map.empty [] = (tbl, seen)"
    by (cases "foldMetrics rnd metrics Map.empty []")
  from foldMetrics_seen [OF f]
  have seen: "set seen = {StartTime m | m. m \<in> set metrics \<and> StartTime m \<noteq> 0}"
    and dist: "distinct seen" by auto
  have dom: "dom (envAt tbl tt) = {Name m | m. m \<in> set metrics \<and> StartTime m = tt \<and> tt \<noteq> 0}" for tt
    using foldMetrics_dom [OF f, of tt] by (simp add: envAt_def)
  have has: "hasAll tbl vars tt \<longleftrightarrow> (\<forall>v\<in>set vars. \<exists>m\<in>set metrics. StartTime m = tt \<and> Name m = v \<and> tt \<noteq> 0)" for tt
  proof -
    have "hasAll tbl vars tt \<longleftrightarrow> (\<forall>v\<in>set vars. v \<in> dom (envAt tbl tt))"
      by (auto simp: hasAll_def list_all_iff)
    then show ?thesis unfolding dom by auto
  qed
  define S where "S = {t. t \<noteq> 0 \<and> (\<forall>v\<in>set vars. \<exists>m\<in>set metrics. StartTime m = t \<and> Name m = v)}"
  from v obtain v0 where v0: "v0 \<in> set vars" by (cases vars) auto
  have S: "set (filter (hasAll tbl vars) seen) = S"
    unfolding S_def using has seen v0 by auto
  have d: "distinct (filter (hasAll tbl vars) seen)" using dist by simp
  have srt: "sort (filter (hasAll tbl vars) seen) = sorted_list_of_set S"
    using d S by (metis sorted_list_of_set_sort_remdups distinct_remdups_id)
  show ?thesis
  proof (cases "filter (hasAll tbl vars) seen = []")
    case True
    with c p v f have "out = []" by (simp add: Compute_def split: if_splits)
    moreover from True S have "S = {}" by simp
    ultimately show ?thesis by (simp add: S_def [symmetric])
  next
    case False
    with c p v f have "evalTimes rnd rpn tbl (if outName = [] then TrimSpace formula else outName)
        (sort (filter (hasAll tbl vars) seen)) [] = Inr out"
      by (simp add: Compute_def split: if_splits)
    from evalTimes_times [OF this] srt show ?thesis by (simp add: S_def)
  qed
qed


lemma TrimSpace_X_div_Y: "TrimSpace ''X/Y'' = ''X/Y''"
  by (rule TrimSpace_nonempty) (simp_all add: byte_def asciiSpace_def)

lemma evalRPN_X_div_Y:
  assumes "env ''X'' = Some x" "env ''Y'' = Some y"
  shows "\<exists>v. evalRPN rnd [\<lparr>kind = tokName, num = Fin 0, ttext = ''X''\<rparr>,
             \<lparr>kind = tokName, num = Fin 0, ttext = ''Y''\<rparr>,
             \<lparr>kind = tokOp, num = Fin 0, ttext = ''/''\<rparr>] env = Inr v \<and> (y = Fin 0 \<longrightarrow> v = Fin 0)"
  using assms by (simp add: evalRPN_def isZero64_def IsInf_def IsNaN_def Let_def)

text \<open>
  C6. Dividing any value by zero pushes 0 (the \<open>/\<close> step of the evaluation loop with a
  zero on top of the stack), and the result of an evaluation is coerced to 0 when it is
  an infinity or a NaN: every value that \<open>evalRPN\<close> returns, and so the value of every
  metric that \<open>Compute\<close> returns, is finite, for every rounding, formula and metric
  list. For the formula \<open>X/Y\<close>, at every instant where the folded value of \<open>Y\<close> is 0
  (and \<open>X\<close> is present), \<open>Compute\<close> succeeds and the metric of that instant has the
  value 0.
\<close>

theorem Compute_values_finite:
  "(evalRPN rnd rpn env = Inr v \<longrightarrow> finite64 v)
   \<and> (Compute rnd metrics formula outName = Inr out \<longrightarrow> (\<forall>m\<in>set out. finite64 (Value m)))
   \<and> (kind tk = tokOp \<and> ttext tk = ''/'' \<longrightarrow>
        evalLoop rnd (tk # rest) env (Fin 0 # a # stack) = evalLoop rnd rest env (Fin 0 # stack))
   \<and> (foldMetrics rnd metrics Map.empty [] = (tbl, seen) \<and>
        envAt tbl t ''X'' = Some x \<and> envAt tbl t ''Y'' = Some (Fin 0) \<longrightarrow>
        (\<exists>out'. Compute rnd metrics ''X/Y'' outName = Inr out' \<and>
           (\<exists>m\<in>set out'. StartTime m = t) \<and>
           (\<forall>m\<in>set out'. StartTime m = t \<longrightarrow> Value m = Fin 0)))"
proof (intro conjI impI)
  assume "evalRPN rnd rpn env = Inr v"
  then show "finite64 v" by (rule evalRPN_finite)
next
  assume c: "Compute rnd metrics formula outName = Inr out"
  show "\<forall>m\<in>set out. finite64 (Value m)"
  proof
    fix m assume m: "m \<in> set out"
    from c obtain rpn' vars where p: "parseExpressionToRPN rnd formula = Inr (rpn', vars)"
      by (auto simp: Compute_def split: if_splits sum.splits)
    obtain tbl' seen' where f: "foldMetrics rnd metrics Map.empty [] = (tbl', seen')"
      by (cases "foldMetrics rnd metrics Map.empty []")
    from c p f m obtain nm tms where "evalTimes rnd rpn' tbl' nm tms [] = Inr out"
      by (auto simp: Compute_def Let_def split: if_splits)
    from evalTimes_fields [OF this m]
    have "evalRPN rnd rpn' (envAt tbl' (StartTime m)) = Inr (Value m)" by simp
    then show "finite64 (Value m)" by (rule evalRPN_finite)
  qed
next
  assume "kind tk = tokOp \<and> ttext tk = ''/''"
  then show "evalLoop rnd (tk # rest) env (Fin 0 # a # stack) = evalLoop rnd rest env (Fin 0 # stack)"
    by (simp add: isZero64_def)
next
  assume a: "foldMetrics rnd metrics Map.empty [] = (tbl, seen) \<and>
        envAt tbl t ''X'' = Some x \<and> envAt tbl t ''Y'' = Some (Fin 0)"
  then have f: "foldMetrics rnd metrics Map.empty [] = (tbl, seen)"
    and x: "envAt tbl t ''X'' = Some x" and y: "envAt tbl t ''Y'' = Some (Fin 0)" by simp_all
  let ?rpn = "[\<lparr>kind = tokName, num = Fin 0, ttext = ''X''\<rparr>,
             \<lparr>kind = tokName, num = Fin 0, ttext = ''Y''\<rparr>,
             \<lparr>kind = tokOp, num = Fin 0, ttext = ''/''\<rparr>]"
  let ?tms = "filter (hasAll tbl [''X'', ''Y'']) seen"
  let ?nm = "if outName = [] then TrimSpace ''X/Y'' else outName"
  from x have "''X'' \<in> dom (envAt tbl t)" by auto
  with foldMetrics_dom [OF f, of t] have "\<exists>m\<in>set metrics. StartTime m = t \<and> t \<noteq> 0"
    by (auto simp: envAt_def)
  with foldMetrics_seen [OF f] have "t \<in> set seen" by auto
  with x y have t: "t \<in> set ?tms" by (simp add: hasAll_def)
  have "\<forall>tt\<in>set (sort ?tms). \<exists>v. evalRPN rnd ?rpn (envAt tbl tt) = Inr v"
  proof
    fix tt assume "tt \<in> set (sort ?tms)"
    then obtain x' y' where "envAt tbl tt ''X'' = Some x'" "envAt tbl tt ''Y'' = Some y'"
      by (auto simp: hasAll_def)
    from evalRPN_X_div_Y [OF this] show "\<exists>v. evalRPN rnd ?rpn (envAt tbl tt) = Inr v" by blast
  qed
  from evalTimes_ok [OF this] obtain out' where
    e: "evalTimes rnd ?rpn tbl ?nm (sort ?tms) [] = Inr out'" by blast
  from t have ne: "?tms \<noteq> []" by (metis empty_iff empty_set)
  have c: "Compute rnd metrics ''X/Y'' outName = Inr out'"
    using e ne f by (simp add: Compute_def parse_X_div_Y TrimSpace_X_div_Y)
  from evalTimes_times [OF e] t have "t \<in> set (map StartTime out')" by simp
  then have ex: "\<exists>m\<in>set out'. StartTime m = t" by auto
  have "\<forall>m\<in>set out'. StartTime m = t \<longrightarrow> Value m = Fin 0"
  proof (intro ballI impI)
    fix m assume m: "m \<in> set out'" and mt: "StartTime m = t"
    from evalTimes_fields [OF e m] mt
    have "evalRPN rnd ?rpn (envAt tbl t) = Inr (Value m)" by simp
    with evalRPN_X_div_Y [OF x y, of rnd] show "Value m = Fin 0" by auto
  qed
  with c ex show "\<exists>out'. Compute rnd metrics ''X/Y'' outName = Inr out' \<and>
           (\<exists>m\<in>set out'. StartTime m = t) \<and>
           (\<forall>m\<in>set out'. StartTime m = t \<longrightarrow> Value m = Fin 0)" by blast
qed

theorem Compute_values_finite_witness:
  "Compute exact [\<lparr>SourceType = ''DUMP'', StartTime = 7, Name = ''X'', Value = Fin 3\<rparr>,
                  \<lparr>SourceType = ''DUMP'', StartTime = 7, Name = ''Y'', Value = Fin 0\<rparr>] ''X/Y'' ''R''
     = Inr [\<lparr>SourceType = ''EXPR'', StartTime = 7, Name = ''R'', Value = Fin 0\<rparr>]
   \<and> finite64 (Value \<lparr>SourceType = ''EXPR'', StartTime = 7, Name = ''R'', Value = Fin 0\<rparr>)"
proof -
  let ?ms = "[\<lparr>SourceType = ''DUMP'', StartTime = 7, Name = ''X'', Value = Fin 3\<rparr>,
              \<lparr>SourceType = ''DUMP'', StartTime = 7, Name = ''Y'', Value = Fin 0\<rparr>]"
  let ?out = "[\<lparr>SourceType = ''EXPR'', StartTime = 7, Name = ''R'', Value = Fin 0\<rparr>]"
  have c: "Compute exact ?ms ''X/Y'' ''R'' = Inr ?out"
    by (simp add: Compute_def parse_X_div_Y TrimSpace_X_div_Y envAt_def hasAll_def exact_def
        evalRPN_def isZero64_def IsInf_def IsNaN_def)
  from Compute_values_finite [of exact "[]" Map.empty "Fin 0" ?ms "''X/Y''" "''R''" ?out]
  have "Compute exact ?ms ''X/Y'' ''R'' = Inr ?out \<longrightarrow> (\<forall>m\<in>set ?out. finite64 (Value m))"
    by blast
  with c show ?thesis by simp
qed

text \<open>
  C5. When \<open>Compute\<close> returns metrics for a formula whose variable set \<open>vars\<close> (the
  names among its tokens) is not empty, the times of the output are exactly the instants
  (other than the zero time, which the fold drops) at which every variable has an input
  metric of that name, each once and in ascending order. For \<open>A + B\<close> with \<open>A\<close> at
  \<open>t1\<close> and \<open>t2\<close> and \<open>B\<close> at \<open>t1\<close> only, the output is one metric, at \<open>t1\<close>.
\<close>

theorem Compute_instants:
  "(Compute rnd metrics formula outName = Inr out \<and> tokenize rnd formula = Inr toks \<and>
    parseExpressionToRPN rnd formula = Inr (rpn, vars) \<and> vars \<noteq> [] \<longrightarrow>
      set vars = {ttext tk | tk. tk \<in> set toks \<and> kind tk = tokName} \<and>
      map StartTime out = sorted_list_of_set
        {t. t \<noteq> 0 \<and> (\<forall>v\<in>set vars. \<exists>m\<in>set metrics. StartTime m = t \<and> Name m = v)})
   \<and> (t1 \<noteq> 0 \<and> t2 \<noteq> 0 \<and> t1 \<noteq> t2 \<longrightarrow>
        (\<exists>v. Compute rnd
           [\<lparr>SourceType = s1, StartTime = t1, Name = ''A'', Value = a1\<rparr>,
            \<lparr>SourceType = s2, StartTime = t2, Name = ''A'', Value = a2\<rparr>,
            \<lparr>SourceType = s3, StartTime = t1, Name = ''B'', Value = b1\<rparr>] ''A + B'' ''S''
          = Inr [\<lparr>SourceType = ''EXPR'', StartTime = t1, Name = ''S'', Value = v\<rparr>]))"
proof (rule conjI)
  show "Compute rnd metrics formula outName = Inr out \<and> tokenize rnd formula = Inr toks \<and>
    parseExpressionToRPN rnd formula = Inr (rpn, vars) \<and> vars \<noteq> [] \<longrightarrow>
      set vars = {ttext tk | tk. tk \<in> set toks \<and> kind tk = tokName} \<and>
      map StartTime out = sorted_list_of_set
        {t. t \<noteq> 0 \<and> (\<forall>v\<in>set vars. \<exists>m\<in>set metrics. StartTime m = t \<and> Name m = v)}"
  proof (intro impI, elim conjE)
    assume c: "Compute rnd metrics formula outName = Inr out"
      and t: "tokenize rnd formula = Inr toks"
      and p: "parseExpressionToRPN rnd formula = Inr (rpn, vars)"
      and v: "vars \<noteq> []"
    from t p have "shunt toks [] [] [] = Inr (rpn, vars)"
      by (simp add: parseExpressionToRPN_def)
    from shunt_vars [OF this]
    have 1: "set vars = {ttext tk | tk. tk \<in> set toks \<and> kind tk = tokName}" by simp
    from 1 Compute_times [OF c p v]
    show "set vars = {ttext tk | tk. tk \<in> set toks \<and> kind tk = tokName} \<and>
      map StartTime out = sorted_list_of_set
        {t. t \<noteq> 0 \<and> (\<forall>v\<in>set vars. \<exists>m\<in>set metrics. StartTime m = t \<and> Name m = v)}"
      by (rule conjI)
  qed
next
  show "t1 \<noteq> 0 \<and> t2 \<noteq> 0 \<and> t1 \<noteq> t2 \<longrightarrow>
        (\<exists>v. Compute rnd
           [\<lparr>SourceType = s1, StartTime = t1, Name = ''A'', Value = a1\<rparr>,
            \<lparr>SourceType = s2, StartTime = t2, Name = ''A'', Value = a2\<rparr>,
            \<lparr>SourceType = s3, StartTime = t1, Name = ''B'', Value = b1\<rparr>] ''A + B'' ''S''
          = Inr [\<lparr>SourceType = ''EXPR'', StartTime = t1, Name = ''S'', Value = v\<rparr>])"
    by (simp add: Compute_def parse_A_plus_B ts1 envAt_def hasAll_def evalRPN_def Let_def)
qed

theorem Compute_instants_witness:
  "Compute exact
     [\<lparr>SourceType = ''DUMP'', StartTime = 10, Name = ''A'', Value = Fin 1\<rparr>,
      \<lparr>SourceType = ''DUMP'', StartTime = 20, Name = ''A'', Value = Fin 2\<rparr>,
      \<lparr>SourceType = ''DUMP'', StartTime = 10, Name = ''B'', Value = Fin 3\<rparr>] ''A + B'' ''S''
     = Inr [\<lparr>SourceType = ''EXPR'', StartTime = 10, Name = ''S'', Value = Fin 4\<rparr>]
   \<and> [10] = sorted_list_of_set
        {t::int. t \<noteq> 0 \<and> (\<forall>v\<in>set [''A'', ''B''].
           \<exists>m\<in>set [\<lparr>SourceType = ''DUMP'', StartTime = 10, Name = ''A'', Value = Fin 1\<rparr>,
      \<lparr>SourceType = ''DUMP'', StartTime = 20, Name = ''A'', Value = Fin 2\<rparr>,
      \<lparr>SourceType = ''DUMP'', StartTime = 10, Name = ''B'', Value = Fin 3\<rparr>]. StartTime m = t \<and> Name m = v)}"
proof -
  let ?ms = "[\<lparr>SourceType = ''DUMP'', StartTime = 10, Name = ''A'', Value = Fin 1\<rparr>,
      \<lparr>SourceType = ''DUMP'', StartTime = 20, Name = ''A'', Value = Fin 2\<rparr>,
      \<lparr>SourceType = ''DUMP'', StartTime = 10, Name = ''B'', Value = Fin 3\<rparr>]"
  let ?out = "[\<lparr>SourceType = ''EXPR'', StartTime = 10, Name = ''S'', Value = Fin 4\<rparr>]"
  let ?rpn = "[\<lparr>kind = tokName, num = Fin 0, ttext = ''A''\<rparr>,
      \<lparr>kind = tokName, num = Fin 0, ttext = ''B''\<rparr>, \<lparr>kind = tokOp, num = Fin 0, ttext = ''+''\<rparr>]"
  have c: "Compute exact ?ms ''A + B'' ''S'' = Inr ?out"
    by (simp add: Compute_def parse_A_plus_B ts1 envAt_def hasAll_def exact_def
        evalRPN_def isZero64_def IsInf_def IsNaN_def Let_def)
  obtain toks where t: "tokenize exact ''A + B'' = Inr toks"
    by (simp add: tok_simps)
  have v: "[''A'', ''B''] \<noteq> []" by simp
  from Compute_instants [of exact ?ms "''A + B''" "''S''" ?out toks ?rpn "[''A'', ''B'']"]
    c t parse_A_plus_B [of exact] v
  have "map StartTime ?out = sorted_list_of_set
        {t. t \<noteq> 0 \<and> (\<forall>v\<in>set [''A'', ''B'']. \<exists>m\<in>set ?ms. StartTime m = t \<and> Name m = v)}"
    by blast
  then have "[10] = sorted_list_of_set
        {t. t \<noteq> 0 \<and> (\<forall>v\<in>set [''A'', ''B'']. \<exists>m\<in>set ?ms. StartTime m = t \<and> Name m = v)}"
    by (simp only: list.map Metric.select_convs)
  with c show ?thesis by (rule_tac conjI)
qed


lemma leadSpace_ascii: "asciiSpace b \<Longrightarrow> leadSpace (b # bs) = 1"
  by (cases bs; cases "tl bs") auto

lemma leadSpace_two:
  "\<not> asciiSpace b \<Longrightarrow> b = 194 \<and> (b2 = 133 \<or> b2 = 160) \<Longrightarrow> leadSpace (b # b2 # bs) = 2"
  by (cases bs) auto

lemma leadSpace_spaceRune:
  "w \<in> set spaceRunes \<Longrightarrow> leadSpace (map byte w @ bs) = length w \<and> w \<noteq> []"
  unfolding spaceRunes_def
  by (auto simp: byte_def asciiSpace_def leadSpace_ascii leadSpace_two)

lemma trimLeadSpace_spaceRune:
  assumes "w \<in> set spaceRunes"
  shows "trimLeadSpace (w @ s) = trimLeadSpace s"
proof -
  from leadSpace_spaceRune [OF assms, of "map byte s"]
  have n: "leadSpace (map byte w @ map byte s) = length w" and ne: "w \<noteq> []" by simp_all
  show ?thesis
    by (subst trimLeadSpace.simps) (simp add: n ne del: trimLeadSpace.simps)
qed

lemma trimLeadSpace_concat:
  "set ws \<subseteq> set spaceRunes \<Longrightarrow> trimLeadSpace (concat ws) = []"
proof (induction ws)
  case Nil
  show ?case by (subst trimLeadSpace.simps) simp
next
  case (Cons w ws)
  then show ?case by (simp add: trimLeadSpace_spaceRune del: trimLeadSpace.simps)
qed

lemma TrimSpace_concat:
  "set ws \<subseteq> set spaceRunes \<Longrightarrow> TrimSpace (concat ws) = []"
  unfolding TrimSpace_def
  by (simp add: trimLeadSpace_concat del: trimLeadSpace.simps)

text \<open>
  C10. For every metric collection and every output name, \<open>Compute\<close> on a formula that
  is empty or is made of whitespace runes only (any sequence of the runes that
  \<open>strings.TrimSpace\<close> removes) returns the error "empty formula", and with it no
  output metric.
\<close>

theorem Compute_blank_formula_is_error:
  "set ws \<subseteq> set spaceRunes \<Longrightarrow> Compute rnd metrics (concat ws) outName = Inl EmptyFormula"
  by (simp add: Compute_def TrimSpace_concat)

theorem Compute_blank_formula_is_error_witness:
  "Compute exact [\<lparr>SourceType = ''OTHER'', StartTime = 5, Name = ''A'', Value = Fin 1\<rparr>]
     [] ''out'' = Inl EmptyFormula
   \<and> Compute exact [\<lparr>SourceType = ''OTHER'', StartTime = 5, Name = ''A'', Value = Fin 1\<rparr>]
     [CHR '' '', CHR 0x09, CHR '' '', CHR 0x0A] ''out'' = Inl EmptyFormula"
proof -
  have a: "set ([]::string list) \<subseteq> set spaceRunes" by simp
  have b: "set [[CHR '' ''], [CHR 0x09], [CHR '' ''], [CHR 0x0A]]
             \<subseteq> set spaceRunes"
    by (simp add: spaceRunes_def)
  show ?thesis
    using Compute_blank_formula_is_error [OF a] Compute_blank_formula_is_error [OF b]
    by simp
qed

end
